theory Spec2Isabelle
  imports Main
begin

section \<open>Go strings, runes and bytes\<close>

text \<open>
  The validator reads a string in two ways: \<^verbatim>\<open>len(s)\<close> counts the bytes of its UTF-8
  encoding, while \<^verbatim>\<open>range s\<close>, \<^verbatim>\<open>[]rune(s)\<close> and \<^verbatim>\<open>utf8.DecodeRuneInString\<close> walk
  over its code points. A string is modelled by the sequence of code points it decodes
  to, and its bytes are recomputed with the encoder of package \<^verbatim>\<open>unicode/utf8\<close>, so both
  readings are available. Strings holding bytes that are not valid UTF-8 are outside
  this model. A rune is an \<^verbatim>\<open>int32\<close> in Go; code points stay below \<^verbatim>\<open>0x110000\<close>, so
  \<^verbatim>\<open>r + 1\<close> and \<^verbatim>\<open>r - 1\<close> never wrap and runes are plain integers here.
\<close>

type_synonym rune = int
type_synonym byte = nat
type_synonym gostring = "rune list"

definition EncodeRune :: "rune \<Rightarrow> byte list" where
  "EncodeRune r =
     (if 0 \<le> r \<and> r \<le> 0x7F then [nat r]
      else if 0 \<le> r \<and> r \<le> 0x7FF then [0xC0 + nat (r div 64), 0x80 + nat (r mod 64)]
      else if r < 0 \<or> 0x10FFFF < r \<or> (0xD800 \<le> r \<and> r \<le> 0xDFFF) then [0xEF, 0xBF, 0xBD]
      else if r \<le> 0xFFFF then
        [0xE0 + nat (r div 4096), 0x80 + nat (r div 64 mod 64), 0x80 + nat (r mod 64)]
      else [0xF0 + nat (r div 262144), 0x80 + nat (r div 4096 mod 64),
            0x80 + nat (r div 64 mod 64), 0x80 + nat (r mod 64)])"

definition bytes :: "gostring \<Rightarrow> byte list" where
  "bytes s = concat (map EncodeRune s)"

definition len :: "gostring \<Rightarrow> int" where
  "len s = int (length (bytes s))"

text \<open>
  The tables of package \<^verbatim>\<open>unicode\<close> are not part of the repository; the functions that
  consult them take the tables as a parameter.
\<close>

record unicode =
  IsSpace :: "rune \<Rightarrow> bool"
  IsLetter :: "rune \<Rightarrow> bool"
  IsUpper :: "rune \<Rightarrow> bool"
  IsNumber :: "rune \<Rightarrow> bool"
  ToLowerRune :: "rune \<Rightarrow> rune"

definition TrimSpace :: "unicode \<Rightarrow> gostring \<Rightarrow> gostring" where
  "TrimSpace U s = rev (dropWhile (IsSpace U) (rev (dropWhile (IsSpace U) s)))"

definition ToLower :: "unicode \<Rightarrow> gostring \<Rightarrow> gostring" where
  "ToLower U s = map (ToLowerRune U) s"

section \<open>String helpers of \<^verbatim>\<open>crunchy.go\<close>\<close>

text \<open>\<^verbatim>\<open>countUniqueChars\<close>: every rune of the string is entered into a map; the result is
  the number of keys.\<close>

definition countUniqueChars :: "gostring \<Rightarrow> int" where
  "countUniqueChars s = int (card (fold insert s {}))"

text \<open>\<^verbatim>\<open>countSystematicChars\<close>: the loop skips index 0 and compares every later rune with
  its predecessor \<^verbatim>\<open>rs[i-1]\<close>.\<close>

fun countSystematicChars :: "gostring \<Rightarrow> int" where
  "countSystematicChars (p # c # rs) =
     (if c = p + 1 \<or> c = p - 1 then 1 else 0) + countSystematicChars (c # rs)"
| "countSystematicChars rs = 0"

text \<open>\<^verbatim>\<open>reverse\<close>: two indices walk towards each other and swap the runes they point at.\<close>

function reverse_loop :: "rune list \<Rightarrow> int \<Rightarrow> int \<Rightarrow> rune list" where
  "reverse_loop rs i j =
     (if i < j then reverse_loop (rs[nat i := rs ! nat j, nat j := rs ! nat i]) (i + 1) (j - 1)
      else rs)"
  by pat_completeness auto
termination
  by (relation "measure (\<lambda>(rs, i, j). nat (j - i))") auto

declare reverse_loop.simps [simp del]

definition reverse :: "gostring \<Rightarrow> gostring" where
  "reverse s = reverse_loop s 0 (int (length s) - 1)"

text \<open>\<^verbatim>\<open>normalize\<close> is \<open>normalize_str\<close> here, since the library has a constant of
  that name. \<^verbatim>\<open>strings.ToLower\<close> comes first, \<^verbatim>\<open>strings.TrimSpace\<close> second.\<close>

definition normalize_str :: "unicode \<Rightarrow> gostring \<Rightarrow> gostring" where
  "normalize_str U s = TrimSpace U (ToLower U s)"

section \<open>Library functions the validator calls\<close>

text \<open>
  \<^verbatim>\<open>smetrics.WagnerFischer(a, b, icost, dcost, scost)\<close> belongs to an external package. It
  fills the edit-distance table over the bytes of the two strings, row by row: cell
  \<open>(i, j)\<close> compares the prefixes of length \<open>i\<close> and \<open>j\<close>; equal last bytes copy the
  diagonal cell, otherwise the cheapest of insertion, deletion and substitution is
  taken. \<open>wagner\<close> is that recurrence on the reversed prefixes.
\<close>

fun wagner :: "int \<Rightarrow> int \<Rightarrow> int \<Rightarrow> byte list \<Rightarrow> byte list \<Rightarrow> int" where
  "wagner icost dcost scost [] b = int (length b) * icost"
| "wagner icost dcost scost (x # a) [] = int (length (x # a)) * dcost"
| "wagner icost dcost scost (x # a) (y # b) =
     (if x = y then wagner icost dcost scost a b
      else (let ins = wagner icost dcost scost (x # a) b + icost;
                del = wagner icost dcost scost a (y # b) + dcost;
                sub = wagner icost dcost scost a b + scost
            in if ins < del \<and> ins < sub then ins else if del < sub then del else sub))"

definition WagnerFischer :: "gostring \<Rightarrow> gostring \<Rightarrow> int \<Rightarrow> int \<Rightarrow> int \<Rightarrow> int" where
  "WagnerFischer a b icost dcost scost = wagner icost dcost scost (rev (bytes a)) (rev (bytes b))"

text \<open>
  \<^verbatim>\<open>hex.DecodeString\<close>: two hexadecimal digits give one byte. The call fails on a byte
  that is no hexadecimal digit and on an odd number of bytes; the validator only tests
  whether it failed, so the two kinds of failure are one \<open>None\<close>.
\<close>

definition fromHexChar :: "byte \<Rightarrow> byte option" where
  "fromHexChar c =
     (if 48 \<le> c \<and> c \<le> 57 then Some (c - 48)
      else if 97 \<le> c \<and> c \<le> 102 then Some (c - 97 + 10)
      else if 65 \<le> c \<and> c \<le> 70 then Some (c - 65 + 10)
      else None)"

fun Decode :: "byte list \<Rightarrow> byte list option" where
  "Decode [] = Some []"
| "Decode [c] = None"
| "Decode (c # d # src) =
     (case fromHexChar c of
        None \<Rightarrow> None
      | Some a \<Rightarrow>
          (case fromHexChar d of
             None \<Rightarrow> None
           | Some b \<Rightarrow>
               (case Decode src of None \<Rightarrow> None | Some dst \<Rightarrow> Some ((a * 16 + b) # dst))))"

definition DecodeString :: "gostring \<Rightarrow> byte list option" where
  "DecodeString s = Decode (bytes s)"

text \<open>The two regular expressions of \<^verbatim>\<open>Check\<close>: \<^verbatim>\<open>[0-9]+\<close> matches when some rune is an
  ASCII digit, \<^verbatim>\<open>[^\w\s]+\<close> when some rune is neither in \<^verbatim>\<open>[0-9A-Za-z_]\<close> nor in
  \<^verbatim>\<open>[\t\n\f\r ]\<close>.\<close>

definition validateDigit :: "gostring \<Rightarrow> bool" where
  "validateDigit s = list_ex (\<lambda>r. 48 \<le> r \<and> r \<le> 57) s"

definition wordChar :: "rune \<Rightarrow> bool" where
  "wordChar r = ((48 \<le> r \<and> r \<le> 57) \<or> (65 \<le> r \<and> r \<le> 90) \<or> (97 \<le> r \<and> r \<le> 122) \<or> r = 95)"

definition spaceChar :: "rune \<Rightarrow> bool" where
  "spaceChar r = (r = 9 \<or> r = 10 \<or> r = 12 \<or> r = 13 \<or> r = 32)"

definition validateSymbols :: "gostring \<Rightarrow> bool" where
  "validateSymbols s = list_ex (\<lambda>r. \<not> wordChar r \<and> \<not> spaceChar r) s"

section \<open>Errors, options and the validator\<close>

text \<open>Modelled from the spec: \<^verbatim>\<open>foundInHIBP\<close> is not among the sources. The breach oracle
  answers found, not found or unreachable; the first and the last are errors.\<close>

datatype hibp_error = ErrFoundHIBP | ErrHIBPUnreachable

datatype error =
    ErrEmpty
  | ErrTooShort
  | ErrTooFewChars
  | ErrNoDigits
  | ErrNoSymbols
  | ErrTooSystematic
  | ErrDictionary
  | ErrMangledDictionary
  | ErrHashedDictionary
  | DictionaryError error gostring int
  | HashedDictionaryError error gostring
  | HIBPError hibp_error

record Options =
  MinLength :: int
  MinDiff :: int
  MinDist :: int
  Hashers :: "(byte list \<Rightarrow> byte list) list"
  DictionaryPath :: gostring
  CheckHIBP :: bool
  MustContainDigit :: bool
  MustContainSymbol :: bool

text \<open>
  The key set of the map \<^verbatim>\<open>words\<close> is a list without duplicates; \<^verbatim>\<open>once\<close> is the flag of
  the \<^verbatim>\<open>sync.Once\<close>. The keys of \<^verbatim>\<open>hashedWords\<close> are digests, that is, byte strings.
\<close>

record Validator =
  options :: Options
  once :: bool
  wordsMaxLen :: int
  words :: "gostring list"
  hashedWords :: "byte list \<rightharpoonup> gostring"

text \<open>
  What the validator reaches outside itself: the Unicode tables, the file system
  (\<open>Glob\<close> lists the dictionaries under a path or fails; \<open>Scan\<close> gives the lines a
  \<^verbatim>\<open>bufio.Scanner\<close> reads from a file, \<open>ReadFile\<close> its whole content, or fails), the breach
  oracle, and the order in which \<^verbatim>\<open>range\<close> walks over a map. Go leaves that order
  open: the keys come out sorted by an arbitrary rank.
\<close>

record env =
  Unicode :: unicode
  Glob :: "gostring \<Rightarrow> gostring list option"
  Scan :: "gostring \<Rightarrow> gostring list option"
  ReadFile :: "gostring \<Rightarrow> gostring option"
  foundInHIBP :: "gostring \<Rightarrow> hibp_error option"
  RangeRank :: "gostring \<Rightarrow> nat"

definition range_keys :: "env \<Rightarrow> gostring list \<Rightarrow> gostring list" where
  "range_keys E m = sort_key (RangeRank E) m"

text \<open>Modelled from the spec: \<^verbatim>\<open>hashsum\<close> is not among the sources. It is the digest of
  the word under one configured hash algorithm.\<close>

definition hashsum :: "gostring \<Rightarrow> (byte list \<Rightarrow> byte list) \<Rightarrow> byte list" where
  "hashsum s hasher = hasher (bytes s)"

definition NewValidatorWithOpts :: "Options \<Rightarrow> Validator" where
  "NewValidatorWithOpts opts =
     (let o1 = (if MinLength opts \<le> 0 then opts\<lparr>MinLength := 8\<rparr> else opts);
          o2 = (if MinDiff o1 \<le> 0 then o1\<lparr>MinDiff := 5\<rparr> else o1);
          o3 = (if MinDist o2 < 0 then o2\<lparr>MinDist := 3\<rparr> else o2)
      in \<lparr>options = o3, once = False, wordsMaxLen = 0, words = [], hashedWords = Map.empty\<rparr>)"

section \<open>The dictionary index\<close>

text \<open>The body of the scanner loop of \<^verbatim>\<open>indexDictionaries\<close>, for one line of a file.\<close>

definition indexWord :: "unicode \<Rightarrow> gostring \<Rightarrow> Validator \<Rightarrow> Validator" where
  "indexWord U line v =
     (let nw = normalize_str U line;
          nwlen = len nw;
          v1 = (if nwlen > wordsMaxLen v then v\<lparr>wordsMaxLen := nwlen\<rparr> else v);
          v2 = (if nwlen \<ge> MinLength (options v1) - MinDist (options v1)
                then v1\<lparr>words := List.insert nw (words v1)\<rparr> else v1)
      in fold (\<lambda>hasher w. w\<lparr>hashedWords := (hashedWords w)(hashsum nw hasher \<mapsto> nw)\<rparr>)
           (Hashers (options v2)) v2)"

definition indexFile :: "env \<Rightarrow> gostring \<Rightarrow> Validator \<Rightarrow> Validator" where
  "indexFile E dict v =
     (case Scan E dict of
        None \<Rightarrow> v
      | Some lines \<Rightarrow> fold (indexWord (Unicode E)) lines v)"

definition indexDictionaries :: "env \<Rightarrow> Validator \<Rightarrow> Validator" where
  "indexDictionaries E v =
     (if DictionaryPath (options v) = [] then v
      else (case Glob E (DictionaryPath (options v)) of
              None \<Rightarrow> v
            | Some dicts \<Rightarrow> fold (indexFile E) dicts v))"

definition IndexDictionaries :: "env \<Rightarrow> Validator \<Rightarrow> Validator" where
  "IndexDictionaries E v = (if once v then v else (indexDictionaries E v)\<lparr>once := True\<rparr>)"

section \<open>Dictionary lookup\<close>

text \<open>The loop over the indexed words: the first word within \<open>mindist\<close> of the password
  or of its reversal ends the search.\<close>

fun scanWords :: "int \<Rightarrow> gostring \<Rightarrow> gostring \<Rightarrow> gostring list \<Rightarrow> error option" where
  "scanWords mindist pw revpw [] = None"
| "scanWords mindist pw revpw (word # rest) =
     (if WagnerFischer word pw 1 1 1 \<le> mindist
      then Some (DictionaryError ErrMangledDictionary word (WagnerFischer word pw 1 1 1))
      else if WagnerFischer word revpw 1 1 1 \<le> mindist
      then Some (DictionaryError ErrMangledDictionary word (WagnerFischer word revpw 1 1 1))
      else scanWords mindist pw revpw rest)"

definition foundInDictionaries :: "env \<Rightarrow> Validator \<Rightarrow> gostring \<Rightarrow> error option \<times> Validator" where
  "foundInDictionaries E v0 s =
     (let v = IndexDictionaries E v0;
          pw = normalize_str (Unicode E) s;
          revpw = reverse pw;
          pwlen = len pw
      in if pwlen \<le> wordsMaxLen v \<and> pw \<in> set (words v)
         then (Some (DictionaryError ErrDictionary pw 0), v)
         else if pwlen \<le> wordsMaxLen v \<and> revpw \<in> set (words v)
         then (Some (DictionaryError ErrMangledDictionary revpw 0), v)
         else (case (case DecodeString pw of None \<Rightarrow> None | Some pwindex \<Rightarrow> hashedWords v pwindex) of
                 Some word \<Rightarrow> (Some (HashedDictionaryError ErrHashedDictionary word), v)
               | None \<Rightarrow>
                   if pwlen \<le> wordsMaxLen v + MinDist (options v)
                   then (scanWords (MinDist (options v)) pw revpw (range_keys E (words v)), v)
                   else (None, v)))"

section \<open>Check and Rate\<close>

text \<open>
  \<^verbatim>\<open>int(3.0 + 0.09 * float64(len(password)))\<close>: the product is a multiple of
  \<open>1/100\<close> and the rounding error of the double is far smaller, so for every length a
  string can have the truncation is the integer \<open>3 + 9 * l div 100\<close>.
\<close>

definition maxrepeat :: "int \<Rightarrow> int" where
  "maxrepeat l = 3 + (9 * l) div 100"

definition Check :: "env \<Rightarrow> Validator \<Rightarrow> gostring \<Rightarrow> error option \<times> Validator" where
  "Check E v password =
     (if TrimSpace (Unicode E) password = [] then (Some ErrEmpty, v)
      else if len password < MinLength (options v) then (Some ErrTooShort, v)
      else if countUniqueChars password < MinDiff (options v) then (Some ErrTooFewChars, v)
      else if MustContainDigit (options v) \<and> \<not> validateDigit password then (Some ErrNoDigits, v)
      else if MustContainSymbol (options v) \<and> \<not> validateSymbols password then (Some ErrNoSymbols, v)
      else if countSystematicChars password > maxrepeat (len password)
      then (Some ErrTooSystematic, v)
      else (case foundInDictionaries E v password of
              (Some err, v') \<Rightarrow> (Some err, v')
            | (None, v') \<Rightarrow>
                if CheckHIBP (options v')
                then (case foundInHIBP E password of
                        Some err \<Rightarrow> (Some (HIBPError err), v')
                      | None \<Rightarrow> (None, v'))
                else (None, v')))"

text \<open>The counting loop of \<^verbatim>\<open>Rate\<close>: the counters are \<^verbatim>\<open>letters\<close>, \<^verbatim>\<open>uLetters\<close>,
  \<^verbatim>\<open>numbers\<close> and \<^verbatim>\<open>symbols\<close>, in this order.\<close>

fun countClasses :: "unicode \<Rightarrow> gostring \<Rightarrow> int \<times> int \<times> int \<times> int \<Rightarrow> int \<times> int \<times> int \<times> int" where
  "countClasses U [] acc = acc"
| "countClasses U (r # password) (letters, uLetters, numbers, symbols) =
     countClasses U password
       (if IsLetter U r
        then (if IsUpper U r then (letters, uLetters + 1, numbers, symbols)
              else (letters + 1, uLetters, numbers, symbols))
        else if IsNumber U r then (letters, uLetters, numbers + 1, symbols)
        else (letters, uLetters, numbers, symbols + 1))"

definition score :: "int \<Rightarrow> int \<Rightarrow> int \<Rightarrow> int \<times> int \<times> int \<times> int \<Rightarrow> int" where
  "score l systematics repeats cs =
     (case cs of (letters, uLetters, numbers, symbols) \<Rightarrow>
        (let n0 = l * 4;
             n1 = (if uLetters > 0 then n0 + (l - uLetters) * 2 else n0);
             n2 = (if letters > 0 then n1 + (l - letters) * 2 else n1);
             n3 = n2 + numbers * 4;
             n4 = n3 + symbols * 6;
             n5 = (if l = letters + uLetters then n4 - (letters + uLetters) else n4);
             n6 = (if l = numbers then n5 - numbers * 4 else n5);
             n7 = n6 - repeats * 4;
             n8 = n7 - systematics * 3
         in if n8 < 0 then 0 else if n8 > 100 then 100 else n8))"

definition Rate :: "env \<Rightarrow> Validator \<Rightarrow> gostring \<Rightarrow> nat \<times> error option \<times> Validator" where
  "Rate E v password =
     (case Check E v password of
        (Some err, v') \<Rightarrow> (0, Some err, v')
      | (None, v') \<Rightarrow>
          (let l = len password;
               systematics = countSystematicChars password;
               repeats = l - countUniqueChars password
           in (nat (score l systematics repeats (countClasses (Unicode E) password (0, 0, 0, 0))),
               None, v')))"

section \<open>Index expressions\<close>

text \<open>
  An index expression of Go panics when the index is out of range. The two loops that
  index a slice, in \<^verbatim>\<open>countSystematicChars\<close> and in \<^verbatim>\<open>reverse\<close>, are written once more
  with the bounds check of the runtime: \<open>None\<close> is the panic.
\<close>

definition at :: "'a list \<Rightarrow> int \<Rightarrow> 'a option" where
  "at xs i = (if 0 \<le> i \<and> i < int (length xs) then Some (xs ! nat i) else None)"

function countSystematicLoop :: "rune list \<Rightarrow> int \<Rightarrow> int \<Rightarrow> int option" where
  "countSystematicLoop rs i x =
     (if 0 \<le> i \<and> i < int (length rs)
      then (if i = 0 then countSystematicLoop rs (i + 1) x
            else (case at rs i of
                    None \<Rightarrow> None
                  | Some c \<Rightarrow>
                      (case at rs (i - 1) of
                         None \<Rightarrow> None
                       | Some p \<Rightarrow>
                           countSystematicLoop rs (i + 1)
                             (if c = p + 1 \<or> c = p - 1 then x + 1 else x))))
      else Some x)"
  by pat_completeness auto
termination
  by (relation "measure (\<lambda>(rs, i, x). nat (int (length rs) - i))") (auto simp: neq_Nil_conv)

declare countSystematicLoop.simps [simp del]

function reverseChecked :: "rune list \<Rightarrow> int \<Rightarrow> int \<Rightarrow> rune list option" where
  "reverseChecked rs i j =
     (if i < j
      then (case at rs i of
              None \<Rightarrow> None
            | Some a \<Rightarrow>
                (case at rs j of
                   None \<Rightarrow> None
                 | Some b \<Rightarrow> reverseChecked (rs[nat i := b, nat j := a]) (i + 1) (j - 1)))
      else Some rs)"
  by pat_completeness auto
termination
  by (relation "measure (\<lambda>(rs, i, j). nat (j - i))") auto

declare reverseChecked.simps [simp del]

section \<open>The earlier validator of \<^verbatim>\<open>crunchy.go\<close>\<close>

text \<open>
  \<^verbatim>\<open>crunchy.go\<close> holds an earlier form of the validator: no length bounds, no hashed
  words, and a distance threshold that depends on the password. Its names carry a
  \<open>0\<close> where they would clash with the validator above.
\<close>

record Validator0 =
  minDiff :: int
  minDist :: int
  minLength :: int
  dictionaryPath :: gostring
  once0 :: bool
  words0 :: "gostring list"

text \<open>\<^verbatim>\<open>strings.Split(s, "\n")\<close>\<close>

fun Split :: "gostring \<Rightarrow> rune \<Rightarrow> gostring list" where
  "Split [] sep = [[]]"
| "Split (c # s) sep =
     (if c = sep then [] # Split s sep
      else (case Split s sep of [] \<Rightarrow> [[c]] | w # ws \<Rightarrow> (c # w) # ws))"

definition indexFile0 :: "env \<Rightarrow> gostring \<Rightarrow> Validator0 \<Rightarrow> Validator0" where
  "indexFile0 E dict v =
     (case ReadFile E dict of
        None \<Rightarrow> v
      | Some buf \<Rightarrow>
          fold (\<lambda>word w. w\<lparr>words0 := List.insert (normalize_str (Unicode E) word) (words0 w)\<rparr>)
            (Split buf 10) v)"

definition indexDictionaries0 :: "env \<Rightarrow> Validator0 \<Rightarrow> Validator0" where
  "indexDictionaries0 E v =
     (if dictionaryPath v = [] then v
      else (case Glob E (dictionaryPath v) of
              None \<Rightarrow> v
            | Some dicts \<Rightarrow> fold (indexFile0 E) dicts v))"

fun scanWords0 :: "int \<Rightarrow> gostring \<Rightarrow> gostring \<Rightarrow> gostring list \<Rightarrow> gostring \<times> error option" where
  "scanWords0 mindist pw revpw [] = ([], None)"
| "scanWords0 mindist pw revpw (word # rest) =
     (if WagnerFischer word pw 1 1 1 \<le> mindist then (word, Some ErrMangledDictionary)
      else if WagnerFischer word revpw 1 1 1 \<le> mindist then (word, Some ErrMangledDictionary)
      else scanWords0 mindist pw revpw rest)"

definition foundInDictionaries0 ::
  "env \<Rightarrow> Validator0 \<Rightarrow> gostring \<Rightarrow> (gostring \<times> error option) \<times> Validator0" where
  "foundInDictionaries0 E v0 s =
     (let v = (if once0 v0 then v0 else (indexDictionaries0 E v0)\<lparr>once0 := True\<rparr>);
          pw = normalize_str (Unicode E) s;
          revpw = reverse pw;
          mindist = (if len pw div 2 > minDist v then minDist v else len pw div 2)
      in if pw \<in> set (words0 v) then ((pw, Some ErrDictionary), v)
         else if revpw \<in> set (words0 v) then ((revpw, Some ErrMangledDictionary), v)
         else (scanWords0 mindist pw revpw (range_keys E (words0 v)), v))"

section \<open>The specification's vocabulary\<close>

text \<open>The first error of a sequence of checks; \<open>None\<close> when every check passes.\<close>

fun firstError :: "error option list \<Rightarrow> error option" where
  "firstError [] = None"
| "firstError (None # cs) = firstError cs"
| "firstError (Some e # cs) = Some e"


text \<open>The three stages of the dictionary lookup, each on its own.\<close>

definition exactLookup :: "Validator \<Rightarrow> gostring \<Rightarrow> error option" where
  "exactLookup v pw =
     (if pw \<in> set (words v) then Some (DictionaryError ErrDictionary pw 0)
      else if rev pw \<in> set (words v) then Some (DictionaryError ErrMangledDictionary (rev pw) 0)
      else None)"

definition hashedLookup :: "Validator \<Rightarrow> gostring \<Rightarrow> error option" where
  "hashedLookup v pw =
     (case DecodeString pw of
        None \<Rightarrow> None
      | Some pwindex \<Rightarrow>
          (case hashedWords v pwindex of
             None \<Rightarrow> None
           | Some word \<Rightarrow> Some (HashedDictionaryError ErrHashedDictionary word)))"

definition fuzzyScan :: "env \<Rightarrow> Validator \<Rightarrow> int \<Rightarrow> gostring \<Rightarrow> error option" where
  "fuzzyScan E v mindist pw = scanWords mindist pw (rev pw) (range_keys E (words v))"


text \<open>A word is near the password when its edit distance to the password or to the
  reversed password is at most the threshold.\<close>

definition near :: "int \<Rightarrow> gostring \<Rightarrow> gostring \<Rightarrow> bool" where
  "near mindist pw word =
     (WagnerFischer word pw 1 1 1 \<le> mindist \<or> WagnerFischer word (rev pw) 1 1 1 \<le> mindist)"

text \<open>The rating formula over code-point counts:
  \<open>length \<times> 4\<close>, plus \<open>(length - upper) \<times> 2\<close> if an uppercase letter is present, plus
  \<open>(length - lower) \<times> 2\<close> if another letter is present, plus \<open>digits \<times> 4\<close> and
  \<open>symbols \<times> 6\<close>, minus \<open>lower + upper\<close> for letters only, minus \<open>digits \<times> 4\<close> for
  digits only, minus \<open>(length - unique) \<times> 4\<close> and \<open>systematic \<times> 3\<close>, clamped to
  \<open>[0, 100]\<close>.\<close>

definition rateFormula :: "unicode \<Rightarrow> gostring \<Rightarrow> int" where
  "rateFormula U password =
     (let n = int (length password);
          upper = int (length (filter (\<lambda>r. IsLetter U r \<and> IsUpper U r) password));
          lower = int (length (filter (\<lambda>r. IsLetter U r \<and> \<not> IsUpper U r) password));
          digits = int (length (filter (\<lambda>r. \<not> IsLetter U r \<and> IsNumber U r) password));
          symbols = int (length (filter (\<lambda>r. \<not> IsLetter U r \<and> \<not> IsNumber U r) password));
          unique = int (card (set password));
          systematic = countSystematicChars password;
          total = n * 4
            + (if upper > 0 then (n - upper) * 2 else 0)
            + (if lower > 0 then (n - lower) * 2 else 0)
            + digits * 4 + symbols * 6
            - (if digits = 0 \<and> symbols = 0 then lower + upper else 0)
            - (if lower = 0 \<and> upper = 0 \<and> symbols = 0 then digits * 4 else 0)
            - (n - unique) * 4 - systematic * 3
      in max 0 (min 100 total))"

text \<open>The structural checks in their order, each with its error, and the stages of the
  dictionary lookup with the length bounds in front of them.\<close>

definition structuralChecks :: "unicode \<Rightarrow> Options \<Rightarrow> gostring \<Rightarrow> error option list" where
  "structuralChecks U opts password =
     [if TrimSpace U password = [] then Some ErrEmpty else None,
      if len password < MinLength opts then Some ErrTooShort else None,
      if countUniqueChars password < MinDiff opts then Some ErrTooFewChars else None,
      if MustContainDigit opts \<and> \<not> validateDigit password then Some ErrNoDigits else None,
      if MustContainSymbol opts \<and> \<not> validateSymbols password then Some ErrNoSymbols else None,
      if countSystematicChars password > maxrepeat (len password) then Some ErrTooSystematic
      else None]"

definition dictionaryChecks :: "env \<Rightarrow> Validator \<Rightarrow> gostring \<Rightarrow> error option list" where
  "dictionaryChecks E v pw =
     [if len pw \<le> wordsMaxLen v then exactLookup v pw else None,
      hashedLookup v pw,
      if len pw \<le> wordsMaxLen v + MinDist (options v)
      then fuzzyScan E v (MinDist (options v)) pw else None]"

definition breachCheck :: "env \<Rightarrow> Options \<Rightarrow> gostring \<Rightarrow> error option" where
  "breachCheck E opts password =
     (if CheckHIBP opts then map_option HIBPError (foundInHIBP E password) else None)"

text \<open>The earlier validator after \<^verbatim>\<open>v.once.Do(v.indexDictionaries)\<close>.\<close>

definition onceIndexed0 :: "env \<Rightarrow> Validator0 \<Rightarrow> Validator0" where
  "onceIndexed0 E v = (if once0 v then v else (indexDictionaries0 E v)\<lparr>once0 := True\<rparr>)"

text \<open>No indexed word is longer than \<^verbatim>\<open>wordsMaxLen\<close>.\<close>

definition wordsBounded :: "Validator \<Rightarrow> bool" where
  "wordsBounded v = list_all (\<lambda>w. len w \<le> wordsMaxLen v) (words v)"

text \<open>The word source: the lines of every dictionary that can be read, in the order in
  which \<^verbatim>\<open>indexDictionaries\<close> meets them.\<close>

definition dictionaryLines :: "env \<Rightarrow> gostring \<Rightarrow> gostring list" where
  "dictionaryLines E path =
     (if path = [] then []
      else (case Glob E path of
              None \<Rightarrow> []
            | Some dicts \<Rightarrow>
                concat (map (\<lambda>dict. case Scan E dict of None \<Rightarrow> [] | Some ls \<Rightarrow> ls) dicts)))"

section \<open>Concrete surroundings for the examples\<close>

text \<open>
  The rows of Go's Unicode tables for \<^verbatim>\<open>U+0000\<close> to \<^verbatim>\<open>U+00FF\<close>. Above that range the
  record treats every code point as a caseless symbol, so it stands for the real tables
  only on strings within the range; the examples stay there.
\<close>

definition latin1 :: unicode where
  "latin1 =
     \<lparr>IsSpace = (\<lambda>r. r = 9 \<or> r = 10 \<or> r = 11 \<or> r = 12 \<or> r = 13 \<or> r = 32 \<or> r = 0x85 \<or> r = 0xA0),
      IsLetter = (\<lambda>r. (65 \<le> r \<and> r \<le> 90) \<or> (97 \<le> r \<and> r \<le> 122) \<or> r = 0xAA \<or> r = 0xB5
                     \<or> r = 0xBA \<or> (0xC0 \<le> r \<and> r \<le> 0xD6) \<or> (0xD8 \<le> r \<and> r \<le> 0xF6)
                     \<or> (0xF8 \<le> r \<and> r \<le> 0xFF)),
      IsUpper = (\<lambda>r. (65 \<le> r \<and> r \<le> 90) \<or> (0xC0 \<le> r \<and> r \<le> 0xD6) \<or> (0xD8 \<le> r \<and> r \<le> 0xDE)),
      IsNumber = (\<lambda>r. (48 \<le> r \<and> r \<le> 57) \<or> r = 0xB2 \<or> r = 0xB3 \<or> r = 0xB9
                     \<or> (0xBC \<le> r \<and> r \<le> 0xBE)),
      ToLowerRune = (\<lambda>r. if (65 \<le> r \<and> r \<le> 90) \<or> (0xC0 \<le> r \<and> r \<le> 0xD6) \<or> (0xD8 \<le> r \<and> r \<le> 0xDE)
                        then r + 32 else r)\<rparr>"

text \<open>A file system with one dictionary holding the given lines, an oracle that finds
  nothing, and a map order that follows the order of insertion backwards.\<close>

definition oneDictionary :: "gostring list \<Rightarrow> env" where
  "oneDictionary ls =
     \<lparr>Unicode = latin1,
      Glob = (\<lambda>p. Some [[100]]),
      Scan = (\<lambda>f. Some ls),
      ReadFile = (\<lambda>f. Some (concat (map (\<lambda>l. l @ [10]) ls))),
      foundInHIBP = (\<lambda>p. None),
      RangeRank = (\<lambda>w. 0)\<rparr>"

definition someOptions :: "int \<Rightarrow> int \<Rightarrow> int \<Rightarrow> Options" where
  "someOptions minlen mindiff mindist =
     \<lparr>MinLength = minlen, MinDiff = mindiff, MinDist = mindist, Hashers = [],
      DictionaryPath = [47, 100], CheckHIBP = False, MustContainDigit = False,
      MustContainSymbol = False\<rparr>"


section \<open>Strings: counting, reversing, lengths\<close>

lemma fold_insert_set: "fold insert s A = set s \<union> A"
  by (induction s arbitrary: A) auto

lemma countUniqueChars_card: "countUniqueChars s = int (card (set s))"
  by (simp add: countUniqueChars_def fold_insert_set)



text \<open>The swap loop reverses the slice.\<close>

lemma swap_ends:
  "(xs @ a # m @ b # ys)[length xs := (xs @ a # m @ b # ys) ! (length xs + length m + 1),
      length xs + length m + 1 := (xs @ a # m @ b # ys) ! length xs]
   = xs @ b # m @ a # ys"
proof -
  have 1: "(xs @ a # m @ b # ys) ! (length xs + length m + 1) = b"
    by (simp add: nth_append)
  have 2: "(xs @ a # m @ b # ys) ! length xs = a"
    by simp
  have 3: "(xs @ a # m @ b # ys)[length xs := b] = xs @ b # m @ b # ys"
    by simp
  have 4: "(xs @ b # m @ b # ys)[length xs + length m + 1 := a] = xs @ b # m @ a # ys"
    by (simp add: list_update_append)
  show ?thesis by (simp only: 1 2 3 4)
qed

lemma reverse_loop_mid:
  "reverse_loop (xs @ m @ ys) (int (length xs)) (int (length xs) + int (length m) - 1)
   = xs @ rev m @ ys"
proof (induction "length m" arbitrary: m xs ys rule: less_induct)
  case less
  show ?case
  proof (cases m)
    case Nil
    then show ?thesis by (subst reverse_loop.simps) simp
  next
    case (Cons a m1)
    show ?thesis
    proof (cases m1 rule: rev_cases)
      case Nil
      with Cons show ?thesis by (subst reverse_loop.simps) simp
    next
      case (snoc m2 b)
      have m: "m = a # m2 @ [b]" using Cons snoc by simp
      have lt: "int (length xs) < int (length xs) + int (length m) - 1" using m by simp
      have idx: "nat (int (length xs) + int (length m) - 1) = length xs + length m2 + 1"
        using m by simp
      have "reverse_loop (xs @ m @ ys) (int (length xs)) (int (length xs) + int (length m) - 1)
            = reverse_loop (xs @ b # m2 @ a # ys) (int (length xs) + 1)
                (int (length xs) + int (length m) - 1 - 1)"
        apply (subst reverse_loop.simps)
        apply (simp only: lt if_True idx nat_int)
        using swap_ends[of xs a m2 b ys] m by simp
      also have "\<dots> = reverse_loop ((xs @ [b]) @ m2 @ (a # ys)) (int (length (xs @ [b])))
                         (int (length (xs @ [b])) + int (length m2) - 1)"
        using m by (simp add: add.commute)
      also have "\<dots> = (xs @ [b]) @ rev m2 @ (a # ys)"
        using less[of m2 "xs @ [b]" "a # ys"] m by simp
      finally show ?thesis using m by simp
    qed
  qed
qed

lemma reverse_rev: "reverse s = rev s"
  using reverse_loop_mid[of "[]" s "[]"] by (simp add: reverse_def)

lemma bytes_rev_length: "length (bytes (rev s)) = length (bytes s)"
  by (induction s) (auto simp: bytes_def)

lemma len_rev: "len (rev s) = len s"
  by (simp add: len_def bytes_rev_length)



section \<open>Building the index\<close>

lemma fold_hashers:
  "fold (\<lambda>hasher w. w\<lparr>hashedWords := (hashedWords w)(f hasher \<mapsto> nw)\<rparr>) hs v
   = v\<lparr>hashedWords := fold (\<lambda>hasher m. m(f hasher \<mapsto> nw)) hs (hashedWords v)\<rparr>"
  by (induction hs arbitrary: v) auto

lemma indexWord_options [simp]: "options (indexWord U l v) = options v"
  by (simp add: indexWord_def Let_def fold_hashers)

lemma indexWord_once [simp]: "once (indexWord U l v) = once v"
  by (simp add: indexWord_def Let_def fold_hashers)

lemma indexWord_words:
  "words (indexWord U l v) =
     (if len (normalize_str U l) \<ge> MinLength (options v) - MinDist (options v)
      then List.insert (normalize_str U l) (words v) else words v)"
  by (simp add: indexWord_def Let_def fold_hashers)

lemma indexWord_wordsMaxLen:
  "wordsMaxLen (indexWord U l v) = max (wordsMaxLen v) (len (normalize_str U l))"
  by (simp add: indexWord_def Let_def fold_hashers)


lemma fold_indexWord_options [simp]: "options (fold (indexWord U) ls v) = options v"
  by (induction ls arbitrary: v) auto

lemma fold_indexWord_once [simp]: "once (fold (indexWord U) ls v) = once v"
  by (induction ls arbitrary: v) auto

lemma fold_indexWord_append:
  "fold (indexWord U) (xs @ ys) v = fold (indexWord U) ys (fold (indexWord U) xs v)"
  by simp

lemma indexFile_lines:
  "indexFile E dict v = fold (indexWord (Unicode E)) (case Scan E dict of None \<Rightarrow> [] | Some ls \<Rightarrow> ls) v"
  by (simp add: indexFile_def split: option.splits)

lemma fold_indexFile:
  "fold (indexFile E) dicts v
   = fold (indexWord (Unicode E))
       (concat (map (\<lambda>dict. case Scan E dict of None \<Rightarrow> [] | Some ls \<Rightarrow> ls) dicts)) v"
  by (induction dicts arbitrary: v) (auto simp: indexFile_lines)

lemma indexDictionaries_lines:
  "indexDictionaries E v
   = fold (indexWord (Unicode E)) (dictionaryLines E (DictionaryPath (options v))) v"
  by (simp add: indexDictionaries_def dictionaryLines_def fold_indexFile split: option.splits)

lemma indexDictionaries_options [simp]: "options (indexDictionaries E v) = options v"
  by (simp add: indexDictionaries_lines)

lemma IndexDictionaries_options [simp]: "options (IndexDictionaries E v) = options v"
  by (simp add: IndexDictionaries_def)

lemma IndexDictionaries_once [simp]: "once (IndexDictionaries E v)"
  by (simp add: IndexDictionaries_def)

lemma IndexDictionaries_idem: "IndexDictionaries E' (IndexDictionaries E v) = IndexDictionaries E v"
  by (simp add: IndexDictionaries_def)


lemma fold_indexWord_distinct:
  "distinct (words v) \<Longrightarrow> distinct (words (fold (indexWord U) ls v))"
  by (induction ls arbitrary: v) (auto simp: indexWord_words)










section \<open>The dictionary lookup\<close>

lemma set_range_keys [simp]: "set (range_keys E m) = set m"
  by (simp add: range_keys_def)

lemma scanWords_None:
  "scanWords mindist pw (rev pw) ks = None \<longleftrightarrow> \<not> list_ex (near mindist pw) ks"
  by (induction ks) (auto simp: near_def)

lemma scanWords_Some:
  "scanWords mindist pw (rev pw) ks = Some e \<Longrightarrow>
     \<exists>word d. e = DictionaryError ErrMangledDictionary word d \<and> word \<in> set ks \<and> d \<le> mindist \<and>
       (d = WagnerFischer word pw 1 1 1 \<or> d = WagnerFischer word (rev pw) 1 1 1)"
  by (induction ks) (auto split: if_splits)

lemma scanWords0_None:
  "snd (scanWords0 mindist pw (rev pw) ks) = None \<longleftrightarrow> \<not> list_ex (near mindist pw) ks"
  by (induction ks) (auto simp: near_def)

lemma scanWords0_Some:
  "snd (scanWords0 mindist pw (rev pw) ks) = Some e \<Longrightarrow>
     e = ErrMangledDictionary \<and> fst (scanWords0 mindist pw (rev pw) ks) \<in> set ks \<and>
     near mindist pw (fst (scanWords0 mindist pw (rev pw) ks))"
  by (induction ks) (auto simp: near_def split: if_splits)

lemma firstError_Cons:
  "firstError (c # cs) = (case c of None \<Rightarrow> firstError cs | Some e \<Rightarrow> Some e)"
  by (cases c) simp_all

text \<open>The lookup, stage by stage.\<close>

lemma foundInDictionaries_stages:
  "fst (foundInDictionaries E v s) =
     (let v' = IndexDictionaries E v; pw = normalize_str (Unicode E) s in
      firstError
        [if len pw \<le> wordsMaxLen v' then exactLookup v' pw else None,
         hashedLookup v' pw,
         if len pw \<le> wordsMaxLen v' + MinDist (options v')
         then fuzzyScan E v' (MinDist (options v')) pw else None])"
  by (simp add: foundInDictionaries_def Let_def exactLookup_def hashedLookup_def fuzzyScan_def
      reverse_rev firstError_Cons split: option.splits)

lemma foundInDictionaries_state: "snd (foundInDictionaries E v s) = IndexDictionaries E v"
  by (simp add: foundInDictionaries_def Let_def split: option.splits)

lemma indexWord_bounded: "wordsBounded v \<Longrightarrow> wordsBounded (indexWord U l v)"
  by (auto simp: wordsBounded_def list_all_iff indexWord_words indexWord_wordsMaxLen)

lemma fold_indexWord_bounded: "wordsBounded v \<Longrightarrow> wordsBounded (fold (indexWord U) ls v)"
  by (induction ls arbitrary: v) (auto simp: indexWord_bounded)

lemma IndexDictionaries_bounded: "wordsBounded v \<Longrightarrow> wordsBounded (IndexDictionaries E v)"
  using fold_indexWord_bounded[of v "Unicode E" "dictionaryLines E (DictionaryPath (options v))"]
  by (simp add: IndexDictionaries_def indexDictionaries_lines wordsBounded_def)

lemma NewValidatorWithOpts_bounded: "wordsBounded (NewValidatorWithOpts opts)"
  by (simp add: wordsBounded_def NewValidatorWithOpts_def Let_def)

section \<open>Check and Rate, stage by stage\<close>


lemma firstError_append:
  "firstError (xs @ ys) = (case firstError xs of None \<Rightarrow> firstError ys | Some e \<Rightarrow> Some e)"
  by (induction xs rule: firstError.induct) simp_all

lemma Check_stages:
  "fst (Check E v password) =
     firstError (structuralChecks (Unicode E) (options v) password
       @ [fst (foundInDictionaries E v password), breachCheck E (options v) password])"
  using foundInDictionaries_state[of E v password]
  by (cases "foundInDictionaries E v password")
     (auto simp: Check_def structuralChecks_def breachCheck_def firstError_Cons split: option.splits)

lemma Check_state:
  "snd (Check E v password) =
     (if firstError (structuralChecks (Unicode E) (options v) password) = None
      then IndexDictionaries E v else v)"
  using foundInDictionaries_state[of E v password]
  by (cases "foundInDictionaries E v password")
     (auto simp: Check_def structuralChecks_def firstError_Cons split: option.splits)

lemma score_range: "0 \<le> score l sy rp cs \<and> score l sy rp cs \<le> 100"
  by (cases cs) (auto simp: score_def Let_def)

section \<open>Index expressions stay in range\<close>

lemma countSystematicLoop_from:
  "1 \<le> k \<Longrightarrow> k \<le> length rs \<Longrightarrow>
     countSystematicLoop rs (int k) x = Some (x + countSystematicChars (drop (k - 1) rs))"
proof (induction "length rs - k" arbitrary: k x)
  case 0
  then have k: "k = length rs" by simp
  have "drop (k - 1) rs = [last rs]"
    using 0 k by (cases rs rule: rev_cases) auto
  then show ?case
    using k by (subst countSystematicLoop.simps) simp
next
  case (Suc n)
  then have lt: "k < length rs" and k1: "1 \<le> k" by simp_all
  have d: "drop (k - 1) rs = rs ! (k - 1) # rs ! k # drop (Suc k) rs"
    using lt k1 Cons_nth_drop_Suc[of "k - 1" rs] Cons_nth_drop_Suc[of k rs] by simp
  have d': "drop k rs = rs ! k # drop (Suc k) rs"
    using lt Cons_nth_drop_Suc[of k rs] by simp
  have ih: "\<And>y. countSystematicLoop rs (int (Suc k)) y
              = Some (y + countSystematicChars (drop k rs))"
    using Suc.hyps(1)[of "Suc k"] Suc.hyps(2) lt by simp
  have a1: "at rs (int k) = Some (rs ! k)" using lt by (simp add: at_def)
  have a2: "at rs (int k - 1) = Some (rs ! (k - 1))"
    using lt k1 by (simp add: at_def nat_diff_distrib)
  have s: "int k + 1 = int (Suc k)" by simp
  have step: "countSystematicChars (drop (k - 1) rs)
      = (if rs ! k = rs ! (k - 1) + 1 \<or> rs ! k = rs ! (k - 1) - 1 then 1 else 0)
        + countSystematicChars (drop k rs)"
    by (subst d, subst d') simp
  have "countSystematicLoop rs (int k) x
      = countSystematicLoop rs (int (Suc k))
          (if rs ! k = rs ! (k - 1) + 1 \<or> rs ! k = rs ! (k - 1) - 1 then x + 1 else x)"
    apply (subst countSystematicLoop.simps)
    using lt k1 by (simp add: a1 a2 s del: of_nat_Suc)
  then show ?case using step by (simp add: ih del: of_nat_Suc)
qed

lemma countSystematicLoop_total: "countSystematicLoop rs 0 0 = Some (countSystematicChars rs)"
proof (cases rs)
  case Nil
  then show ?thesis by (subst countSystematicLoop.simps) simp
next
  case (Cons r rest)
  have "countSystematicLoop rs 0 0 = countSystematicLoop rs (int 1) 0"
    using Cons by (subst countSystematicLoop.simps) simp
  then show ?thesis using countSystematicLoop_from[of 1 rs 0] Cons by simp
qed

lemma reverseChecked_loop:
  "0 \<le> i \<Longrightarrow> j < int (length rs) \<Longrightarrow> reverseChecked rs i j = Some (reverse_loop rs i j)"
proof (induction rs i j rule: reverse_loop.induct)
  case (1 rs i j)
  show ?case
  proof (cases "i < j")
    case True
    have a1: "at rs i = Some (rs ! nat i)" using 1(2,3) True by (simp add: at_def)
    have a2: "at rs j = Some (rs ! nat j)" using 1(2,3) True by (simp add: at_def)
    have "reverseChecked (rs[nat i := rs ! nat j, nat j := rs ! nat i]) (i + 1) (j - 1)
          = Some (reverse_loop (rs[nat i := rs ! nat j, nat j := rs ! nat i]) (i + 1) (j - 1))"
      using 1(1)[OF True] 1(2,3) by simp
    then show ?thesis
      using True by (subst reverseChecked.simps, subst reverse_loop.simps) (simp add: a1 a2)
  next
    case False
    then show ?thesis by (subst reverseChecked.simps, subst reverse_loop.simps) simp
  qed
qed

lemma reverseChecked_total: "reverseChecked s 0 (int (length s) - 1) = Some (reverse s)"
  using reverseChecked_loop[of 0 "int (length s) - 1" s] by (simp add: reverse_def)

section \<open>Hexadecimal decoding\<close>

lemma Decode_None:
  "Decode bs = None \<longleftrightarrow> odd (length bs) \<or> list_ex (\<lambda>c. fromHexChar c = None) bs"
proof (induction bs rule: Decode.induct)
  case (3 c d src)
  show ?case
  proof (cases "fromHexChar c")
    case None
    then show ?thesis by simp
  next
    case a: (Some a)
    show ?thesis
    proof (cases "fromHexChar d")
      case None
      with a show ?thesis by simp
    next
      case b: (Some b)
      from 3[OF a b] a b show ?thesis by (cases "Decode src") auto
    qed
  qed
qed simp_all

section \<open>Length bounds\<close>




lemma reachable_bounded:
  "v = NewValidatorWithOpts opts \<or> v = IndexDictionaries E0 (NewValidatorWithOpts opts) \<Longrightarrow>
     wordsBounded (IndexDictionaries E v)"
  by (auto simp: IndexDictionaries_idem intro: IndexDictionaries_bounded NewValidatorWithOpts_bounded)

lemma fold_words0_minDist [simp]:
  "minDist (fold (\<lambda>word w. w\<lparr>words0 := List.insert (f word) (words0 w)\<rparr>) ws v) = minDist v"
  by (induction ws arbitrary: v) auto

lemma indexFile0_minDist [simp]: "minDist (indexFile0 E dict v) = minDist v"
  by (simp add: indexFile0_def split: option.splits)

lemma fold_indexFile0_minDist [simp]: "minDist (fold (indexFile0 E) dicts v) = minDist v"
  by (induction dicts arbitrary: v) auto

lemma onceIndexed0_minDist [simp]: "minDist (onceIndexed0 E v) = minDist v"
  by (simp add: onceIndexed0_def indexDictionaries0_def split: option.splits)

lemma foundInDictionaries0_stages:
  "fst (foundInDictionaries0 E v s) =
     (let w = onceIndexed0 E v; pw = normalize_str (Unicode E) s in
      if pw \<in> set (words0 w) then (pw, Some ErrDictionary)
      else if rev pw \<in> set (words0 w) then (rev pw, Some ErrMangledDictionary)
      else scanWords0 (min (len pw div 2) (minDist v)) pw (rev pw) (range_keys E (words0 w)))"
proof -
  have m: "\<And>a b::int. (if a > b then b else a) = min a b" by auto
  show ?thesis
    by (simp add: foundInDictionaries0_def Let_def reverse_rev m onceIndexed0_def[symmetric])
qed

lemma fuzzyScan_Some:
  "fuzzyScan E v mindist pw = Some e \<Longrightarrow>
     \<exists>word d. e = DictionaryError ErrMangledDictionary word d \<and> word \<in> set (words v)
       \<and> d \<le> mindist \<and> (d = WagnerFischer word pw 1 1 1 \<or> d = WagnerFischer word (rev pw) 1 1 1)"
  using scanWords_Some[of mindist pw "range_keys E (words v)" e] by (simp add: fuzzyScan_def)

lemma fuzzyScan_None:
  "fuzzyScan E v mindist pw = None \<longleftrightarrow> \<not> list_ex (near mindist pw) (words v)"
  by (simp add: fuzzyScan_def scanWords_None list_ex_iff)



section \<open>The claims\<close>

text \<open>
  Claim C3. \<^verbatim>\<open>Check\<close> returns the error of the first check that fails, in the order empty,
  too short, too few unique characters, missing digit, missing symbol, too
  systematic, exact lookup, hashed lookup, fuzzy scan, breach oracle, and accepts when
  none fails. A failing structural check leaves the validator as it was: the index is
  not built and nothing later runs.
\<close>

theorem Check_first_failure:
  "fst (Check E v password) =
     firstError (structuralChecks (Unicode E) (options v) password
       @ dictionaryChecks E (IndexDictionaries E v) (normalize_str (Unicode E) password)
       @ [breachCheck E (options v) password])
   \<and> snd (Check E v password) =
     (if firstError (structuralChecks (Unicode E) (options v) password) = None
      then IndexDictionaries E v else v)"
  by (simp add: Check_stages Check_state foundInDictionaries_stages dictionaryChecks_def
      firstError_append firstError_Cons Let_def split: option.splits)

theorem Check_first_failure_witness:
  "firstError (structuralChecks latin1 (someOptions 6 3 1) [112, 97, 115, 115]) = Some ErrTooShort
   \<and> fst (Check (oneDictionary [[112, 97, 115, 115, 119, 111, 114, 100]])
         (NewValidatorWithOpts (someOptions 6 3 1)) [112, 97, 115, 115]) = Some ErrTooShort
   \<and> snd (Check (oneDictionary [[112, 97, 115, 115, 119, 111, 114, 100]])
         (NewValidatorWithOpts (someOptions 6 3 1)) [112, 97, 115, 115])
     = NewValidatorWithOpts (someOptions 6 3 1)"
proof -
  let ?E = "oneDictionary [[112, 97, 115, 115, 119, 111, 114, 100]]"
  let ?v = "NewValidatorWithOpts (someOptions 6 3 1)"
  have u: "Unicode ?E = latin1" by (simp add: oneDictionary_def)
  have o: "options ?v = someOptions 6 3 1"
    by (simp add: NewValidatorWithOpts_def someOptions_def Let_def)
  have s: "firstError (structuralChecks latin1 (someOptions 6 3 1) [112, 97, 115, 115])
           = Some ErrTooShort"
    by code_simp
  from Check_first_failure[of ?E ?v "[112, 97, 115, 115]"] s show ?thesis
    by (simp add: u o firstError_append)
qed

text \<open>
  Claim C4. The score of \<^verbatim>\<open>Rate\<close> lies between 0 and 100; the integer it converts to the
  unsigned result is already in that range. When \<^verbatim>\<open>Check\<close> returns an error, \<^verbatim>\<open>Rate\<close>
  returns the score 0 with that error.
\<close>

theorem Rate_range:
  "fst (Rate E v password) \<le> 100
   \<and> 0 \<le> score l systematics repeats cs \<and> score l systematics repeats cs \<le> 100
   \<and> (case fst (Check E v password) of
        Some err \<Rightarrow> Rate E v password = (0, Some err, snd (Check E v password))
      | None \<Rightarrow> fst (snd (Rate E v password)) = None)"
proof -
  have "fst (Rate E v password) \<le> 100"
    using score_range[of "len password" "countSystematicChars password"
        "len password - countUniqueChars password"
        "countClasses (Unicode E) password (0, 0, 0, 0)"]
    by (cases "Check E v password") (auto simp: Rate_def Let_def split: option.splits)
  moreover have "case fst (Check E v password) of
        Some err \<Rightarrow> Rate E v password = (0, Some err, snd (Check E v password))
      | None \<Rightarrow> fst (snd (Rate E v password)) = None"
    by (cases "Check E v password") (auto simp: Rate_def Let_def split: option.splits)
  ultimately show ?thesis using score_range[of l systematics repeats cs] by simp
qed

theorem Rate_range_witness:
  "fst (Check (oneDictionary [[112, 97, 115, 115, 119, 111, 114, 100]])
         (NewValidatorWithOpts (someOptions 6 3 1)) [112, 97, 115, 115]) = Some ErrTooShort
   \<and> Rate (oneDictionary [[112, 97, 115, 115, 119, 111, 114, 100]])
         (NewValidatorWithOpts (someOptions 6 3 1)) [112, 97, 115, 115]
       = (0, Some ErrTooShort, NewValidatorWithOpts (someOptions 6 3 1))
   \<and> fst (Rate (oneDictionary [[112, 97, 115, 115, 119, 111, 114, 100]])
         (NewValidatorWithOpts (someOptions 6 3 1))
         [84, 114, 48, 117, 98, 52, 100, 111, 114, 38, 51]) = 88"
proof -
  let ?E = "oneDictionary [[112, 97, 115, 115, 119, 111, 114, 100]]"
  let ?v = "NewValidatorWithOpts (someOptions 6 3 1)"
  have c: "Check ?E ?v [112, 97, 115, 115] = (Some ErrTooShort, ?v)"
    by (simp add: Check_def oneDictionary_def NewValidatorWithOpts_def someOptions_def Let_def
        latin1_def TrimSpace_def len_def bytes_def EncodeRune_def)
  have r: "fst (Rate ?E ?v [84, 114, 48, 117, 98, 52, 100, 111, 114, 38, 51]) = 88"
    by code_simp
  from Rate_range[of ?E ?v "[112, 97, 115, 115]"] c r show ?thesis
    by simp
qed





text \<open>
  Claim C8. When the normalized password is no hexadecimal string, that is, when its
  number of bytes is odd or one of its bytes is no hexadecimal digit, the hashed lookup
  finds nothing and raises nothing: the lookup is the exact lookup followed by the scan,
  and \<^verbatim>\<open>Check\<close> goes on as if no hashed word were indexed. The index expressions on the
  way, in \<^verbatim>\<open>countSystematicChars\<close> and in \<^verbatim>\<open>reverse\<close>, stay in range for every string.
\<close>

theorem hex_failure_is_no_match:
  assumes "DecodeString (normalize_str (Unicode E) s) = None"
  shows "hashedLookup (IndexDictionaries E v) (normalize_str (Unicode E) s) = None
     \<and> fst (foundInDictionaries E v s) =
         firstError
           [if len (normalize_str (Unicode E) s) \<le> wordsMaxLen (IndexDictionaries E v)
            then exactLookup (IndexDictionaries E v) (normalize_str (Unicode E) s) else None,
            if len (normalize_str (Unicode E) s)
                 \<le> wordsMaxLen (IndexDictionaries E v) + MinDist (options v)
            then fuzzyScan E (IndexDictionaries E v) (MinDist (options v))
                   (normalize_str (Unicode E) s)
            else None]
     \<and> fst (Check E v s) =
         firstError (structuralChecks (Unicode E) (options v) s
           @ [if len (normalize_str (Unicode E) s) \<le> wordsMaxLen (IndexDictionaries E v)
              then exactLookup (IndexDictionaries E v) (normalize_str (Unicode E) s) else None,
              if len (normalize_str (Unicode E) s)
                   \<le> wordsMaxLen (IndexDictionaries E v) + MinDist (options v)
              then fuzzyScan E (IndexDictionaries E v) (MinDist (options v))
                     (normalize_str (Unicode E) s)
              else None,
              breachCheck E (options v) s])
     \<and> (odd (length (bytes (normalize_str (Unicode E) s)))
          \<or> list_ex (\<lambda>c. fromHexChar c = None) (bytes (normalize_str (Unicode E) s)))
     \<and> countSystematicLoop s 0 0 = Some (countSystematicChars s)
     \<and> reverseChecked (normalize_str (Unicode E) s) 0
          (int (length (normalize_str (Unicode E) s)) - 1)
         = Some (reverse (normalize_str (Unicode E) s))"
proof -
  let ?v = "IndexDictionaries E v"
  let ?pw = "normalize_str (Unicode E) s"
  have h: "hashedLookup ?v ?pw = None" using assms by (simp add: hashedLookup_def)
  have f: "fst (foundInDictionaries E v s) =
         firstError
           [if len ?pw \<le> wordsMaxLen ?v then exactLookup ?v ?pw else None,
            if len ?pw \<le> wordsMaxLen ?v + MinDist (options v)
            then fuzzyScan E ?v (MinDist (options v)) ?pw else None]"
    by (simp add: foundInDictionaries_stages Let_def h firstError_Cons split: option.splits)
  have c: "fst (Check E v s) =
         firstError (structuralChecks (Unicode E) (options v) s
           @ [if len ?pw \<le> wordsMaxLen ?v then exactLookup ?v ?pw else None,
              if len ?pw \<le> wordsMaxLen ?v + MinDist (options v)
              then fuzzyScan E ?v (MinDist (options v)) ?pw else None,
              breachCheck E (options v) s])"
    by (simp add: Check_stages f firstError_append firstError_Cons split: option.splits)
  have d: "odd (length (bytes ?pw)) \<or> list_ex (\<lambda>c. fromHexChar c = None) (bytes ?pw)"
    using assms by (simp add: DecodeString_def Decode_None)
  from h f c d countSystematicLoop_total[of s] reverseChecked_total[of ?pw]
  show ?thesis by blast
qed

theorem hex_failure_is_no_match_witness:
  "DecodeString (normalize_str latin1 [112, 97, 115, 115, 119, 114, 100]) = None
   \<and> fst (Check (oneDictionary [[112, 97, 115, 115, 119, 111, 114, 100]])
         (NewValidatorWithOpts (someOptions 6 3 1)) [112, 97, 115, 115, 119, 114, 100])
       = Some (DictionaryError ErrMangledDictionary [112, 97, 115, 115, 119, 111, 114, 100] 1)
   \<and> countSystematicLoop [112, 97, 115, 115, 119, 114, 100] 0 0 = Some 0
   \<and> reverseChecked [112, 97, 115, 115, 119, 114, 100] 0 6
       = Some [100, 114, 119, 115, 115, 97, 112]"
proof -
  let ?E = "oneDictionary [[112, 97, 115, 115, 119, 111, 114, 100]]"
  let ?v = "NewValidatorWithOpts (someOptions 6 3 1)"
  let ?s = "[112, 97, 115, 115, 119, 114, 100]"
  have u: "Unicode ?E = latin1" by (simp add: oneDictionary_def)
  have n: "normalize_str latin1 ?s = ?s" by code_simp
  have d: "DecodeString (normalize_str (Unicode ?E) ?s) = None" unfolding u by code_simp
  have c: "fst (Check ?E ?v ?s)
       = Some (DictionaryError ErrMangledDictionary [112, 97, 115, 115, 119, 111, 114, 100] 1)"
    by code_simp
  have r: "reverse ?s = [100, 114, 119, 115, 115, 97, 112]" by (simp add: reverse_rev)
  have k: "countSystematicChars ?s = 0" by simp
  from hex_failure_is_no_match[OF d, of ?v] d c show ?thesis
    by (simp add: u n r k)
qed

text \<open>
  Claim C10. For a validator as \<^verbatim>\<open>NewValidatorWithOpts\<close> builds it, take a password that
  passes the structural checks. When its normalized form is not indexed and the reversal
  of that form is, \<^verbatim>\<open>Check\<close> returns a \<^verbatim>\<open>DictionaryError\<close> of kind
  \<^verbatim>\<open>ErrMangledDictionary\<close> that carries the reversed password and the distance 0.
\<close>

theorem reversed_word_is_mangled:
  assumes "v = NewValidatorWithOpts opts \<or> v = IndexDictionaries E0 (NewValidatorWithOpts opts)"
    and "reverse (normalize_str (Unicode E) s) \<in> set (words (IndexDictionaries E v))"
    and "normalize_str (Unicode E) s \<notin> set (words (IndexDictionaries E v))"
    and "firstError (structuralChecks (Unicode E) (options v) s) = None"
  shows "fst (Check E v s)
           = Some (DictionaryError ErrMangledDictionary (reverse (normalize_str (Unicode E) s)) 0)
     \<and> fst (foundInDictionaries E v s)
           = Some (DictionaryError ErrMangledDictionary (reverse (normalize_str (Unicode E) s)) 0)"
proof -
  let ?v = "IndexDictionaries E v"
  let ?pw = "normalize_str (Unicode E) s"
  have b: "wordsBounded ?v" using assms(1) by (rule reachable_bounded)
  have "len (rev ?pw) \<le> wordsMaxLen ?v"
    using b assms(2) by (auto simp: wordsBounded_def list_all_iff reverse_rev)
  then have l: "len ?pw \<le> wordsMaxLen ?v" by (simp add: len_rev)
  have f: "fst (foundInDictionaries E v s)
           = Some (DictionaryError ErrMangledDictionary (reverse ?pw) 0)"
    using l assms(2,3)
    by (simp add: foundInDictionaries_stages Let_def exactLookup_def reverse_rev)
  then show ?thesis
    using assms(4) by (simp add: Check_stages firstError_append)
qed

theorem reversed_word_is_mangled_witness:
  "firstError (structuralChecks latin1 (someOptions 6 3 1) [100, 114, 111, 119, 115, 115, 97, 112]) = None
   \<and> reverse (normalize_str latin1 [100, 114, 111, 119, 115, 115, 97, 112])
       = [112, 97, 115, 115, 119, 111, 114, 100]
   \<and> words (IndexDictionaries (oneDictionary [[112, 97, 115, 115, 119, 111, 114, 100]])
        (NewValidatorWithOpts (someOptions 6 3 1))) = [[112, 97, 115, 115, 119, 111, 114, 100]]
   \<and> fst (Check (oneDictionary [[112, 97, 115, 115, 119, 111, 114, 100]])
         (NewValidatorWithOpts (someOptions 6 3 1)) [100, 114, 111, 119, 115, 115, 97, 112])
       = Some (DictionaryError ErrMangledDictionary [112, 97, 115, 115, 119, 111, 114, 100] 0)"
proof -
  let ?E = "oneDictionary [[112, 97, 115, 115, 119, 111, 114, 100]]"
  let ?v = "NewValidatorWithOpts (someOptions 6 3 1)"
  let ?s = "[100, 114, 111, 119, 115, 115, 97, 112]"
  have u: "Unicode ?E = latin1" by (simp add: oneDictionary_def)
  have o: "options ?v = someOptions 6 3 1"
    by (simp add: NewValidatorWithOpts_def someOptions_def Let_def)
  have n: "normalize_str latin1 ?s = ?s" by code_simp
  have r: "reverse ?s = [112, 97, 115, 115, 119, 111, 114, 100]" by (simp add: reverse_rev)
  have w: "words (IndexDictionaries ?E ?v) = [[112, 97, 115, 115, 119, 111, 114, 100]]"
    by code_simp
  have c: "firstError (structuralChecks latin1 (someOptions 6 3 1) ?s) = None" by code_simp
  have a1: "?v = NewValidatorWithOpts (someOptions 6 3 1)
            \<or> ?v = IndexDictionaries ?E (NewValidatorWithOpts (someOptions 6 3 1))" by simp
  have a2: "reverse (normalize_str (Unicode ?E) ?s) \<in> set (words (IndexDictionaries ?E ?v))"
    by (simp add: u n r w)
  have a3: "normalize_str (Unicode ?E) ?s \<notin> set (words (IndexDictionaries ?E ?v))"
    by (simp add: u n w)
  have a4: "firstError (structuralChecks (Unicode ?E) (options ?v) ?s) = None"
    by (simp add: u o c)
  from reversed_word_is_mangled[OF a1 a2 a3 a4] c w show ?thesis
    by (simp add: u n r)
qed

text \<open>
  Claim C1, as it stands, fails on the validator with the hashed words: its scan compares
  the distances with \<^verbatim>\<open>MinDist\<close> itself. With \<^verbatim>\<open>MinDist\<close> 3 and the word \<^verbatim>\<open>xyzabba\<close>
  indexed, the password \<^verbatim>\<open>abba\<close> is rejected at distance 3, although half its length
  is 2.
\<close>

theorem fuzzy_threshold_counterexample:
  "min (len [97, 98, 98, 97] div 2) 3 = 2
   \<and> WagnerFischer [120, 121, 122, 97, 98, 98, 97] [97, 98, 98, 97] 1 1 1 = 3
   \<and> WagnerFischer [120, 121, 122, 97, 98, 98, 97] (reverse [97, 98, 98, 97]) 1 1 1 = 3
   \<and> fst (foundInDictionaries (oneDictionary [[120, 121, 122, 97, 98, 98, 97]])
         (NewValidatorWithOpts (someOptions 4 2 3)) [97, 98, 98, 97])
       = Some (DictionaryError ErrMangledDictionary [120, 121, 122, 97, 98, 98, 97] 3)
   \<and> fst (Check (oneDictionary [[120, 121, 122, 97, 98, 98, 97]])
         (NewValidatorWithOpts (someOptions 4 2 3)) [97, 98, 98, 97])
       = Some (DictionaryError ErrMangledDictionary [120, 121, 122, 97, 98, 98, 97] 3)"
proof -
  have 1: "min (len [97, 98, 98, 97] div 2) 3 = 2" by code_simp
  have 2: "WagnerFischer [120, 121, 122, 97, 98, 98, 97] [97, 98, 98, 97] 1 1 1 = 3"
    by code_simp
  have 3: "WagnerFischer [120, 121, 122, 97, 98, 98, 97] (reverse [97, 98, 98, 97]) 1 1 1 = 3"
    unfolding reverse_rev by code_simp
  have 4: "fst (foundInDictionaries (oneDictionary [[120, 121, 122, 97, 98, 98, 97]])
         (NewValidatorWithOpts (someOptions 4 2 3)) [97, 98, 98, 97])
       = Some (DictionaryError ErrMangledDictionary [120, 121, 122, 97, 98, 98, 97] 3)"
    by code_simp
  have 5: "fst (Check (oneDictionary [[120, 121, 122, 97, 98, 98, 97]])
         (NewValidatorWithOpts (someOptions 4 2 3)) [97, 98, 98, 97])
       = Some (DictionaryError ErrMangledDictionary [120, 121, 122, 97, 98, 98, 97] 3)"
    by code_simp
  from 1 2 3 4 5 show ?thesis by blast
qed

text \<open>
  Claim C1, amended. In the validator with the hashed words the threshold of the scan is
  \<^verbatim>\<open>MinDist\<close>: once the exact and the hashed lookup have found nothing and the password
  is no longer than \<^verbatim>\<open>wordsMaxLen + MinDist\<close>, a rejection for a mangled dictionary
  word is produced exactly when some indexed word is within \<^verbatim>\<open>MinDist\<close> of the
  password or of its reversal, and it names such a word with its distance. The
  threshold \<open>min (len pw / 2) minDist\<close> is that of the earlier validator of
  \<^verbatim>\<open>crunchy.go\<close>: when neither the password nor its reversal is indexed there, the
  rejection is produced exactly when some indexed word is within that threshold, and
  it names such a word.
\<close>

theorem fuzzy_threshold:
  "(firstError
      [if len (normalize_str (Unicode E) s) \<le> wordsMaxLen (IndexDictionaries E v)
       then exactLookup (IndexDictionaries E v) (normalize_str (Unicode E) s) else None,
       hashedLookup (IndexDictionaries E v) (normalize_str (Unicode E) s)] = None
    \<and> len (normalize_str (Unicode E) s) \<le> wordsMaxLen (IndexDictionaries E v) + MinDist (options v)
    \<longrightarrow>
      ((\<exists>word d. fst (foundInDictionaries E v s) = Some (DictionaryError ErrMangledDictionary word d))
        \<longleftrightarrow> list_ex (near (MinDist (options v)) (normalize_str (Unicode E) s))
              (words (IndexDictionaries E v)))
      \<and> (\<forall>e. fst (foundInDictionaries E v s) = Some e \<longrightarrow>
            (\<exists>word d. e = DictionaryError ErrMangledDictionary word d
               \<and> word \<in> set (words (IndexDictionaries E v))
               \<and> near (MinDist (options v)) (normalize_str (Unicode E) s) word
               \<and> d \<le> MinDist (options v)
               \<and> (d = WagnerFischer word (normalize_str (Unicode E) s) 1 1 1
                    \<or> d = WagnerFischer word (reverse (normalize_str (Unicode E) s)) 1 1 1))))
   \<and> (normalize_str (Unicode E) s \<notin> set (words0 (onceIndexed0 E old))
      \<and> reverse (normalize_str (Unicode E) s) \<notin> set (words0 (onceIndexed0 E old))
    \<longrightarrow>
      (snd (fst (foundInDictionaries0 E old s)) = Some ErrMangledDictionary
        \<longleftrightarrow> list_ex (near (min (len (normalize_str (Unicode E) s) div 2) (minDist old))
                      (normalize_str (Unicode E) s))
              (words0 (onceIndexed0 E old)))
      \<and> (snd (fst (foundInDictionaries0 E old s)) \<noteq> None \<longrightarrow>
            fst (fst (foundInDictionaries0 E old s)) \<in> set (words0 (onceIndexed0 E old))
            \<and> near (min (len (normalize_str (Unicode E) s) div 2) (minDist old))
                 (normalize_str (Unicode E) s) (fst (fst (foundInDictionaries0 E old s)))))"
proof -
  let ?v = "IndexDictionaries E v"
  let ?pw = "normalize_str (Unicode E) s"
  let ?w = "onceIndexed0 E old"
  let ?m0 = "min (len ?pw div 2) (minDist old)"
  have new: "(\<exists>word d. fst (foundInDictionaries E v s) = Some (DictionaryError ErrMangledDictionary word d))
        \<longleftrightarrow> list_ex (near (MinDist (options v)) ?pw) (words ?v)"
    and new2: "\<forall>e. fst (foundInDictionaries E v s) = Some e \<longrightarrow>
            (\<exists>word d. e = DictionaryError ErrMangledDictionary word d
               \<and> word \<in> set (words ?v) \<and> near (MinDist (options v)) ?pw word
               \<and> d \<le> MinDist (options v)
               \<and> (d = WagnerFischer word ?pw 1 1 1 \<or> d = WagnerFischer word (reverse ?pw) 1 1 1))"
    if a: "firstError [if len ?pw \<le> wordsMaxLen ?v then exactLookup ?v ?pw else None,
                      hashedLookup ?v ?pw] = None"
      and b: "len ?pw \<le> wordsMaxLen ?v + MinDist (options v)"
  proof -
    have f: "fst (foundInDictionaries E v s) = fuzzyScan E ?v (MinDist (options v)) ?pw"
      using a b
      by (simp add: foundInDictionaries_stages Let_def firstError_Cons split: option.splits if_splits)
    show "(\<exists>word d. fst (foundInDictionaries E v s) = Some (DictionaryError ErrMangledDictionary word d))
        \<longleftrightarrow> list_ex (near (MinDist (options v)) ?pw) (words ?v)"
    proof
      assume "\<exists>word d. fst (foundInDictionaries E v s) = Some (DictionaryError ErrMangledDictionary word d)"
      then have "fuzzyScan E ?v (MinDist (options v)) ?pw \<noteq> None" using f by auto
      then show "list_ex (near (MinDist (options v)) ?pw) (words ?v)"
        by (simp add: fuzzyScan_None)
    next
      assume "list_ex (near (MinDist (options v)) ?pw) (words ?v)"
      then have "fuzzyScan E ?v (MinDist (options v)) ?pw \<noteq> None"
        by (simp add: fuzzyScan_None)
      then obtain e where e: "fuzzyScan E ?v (MinDist (options v)) ?pw = Some e" by auto
      from fuzzyScan_Some[OF e] e f
      show "\<exists>word d. fst (foundInDictionaries E v s) = Some (DictionaryError ErrMangledDictionary word d)"
        by auto
    qed
    show "\<forall>e. fst (foundInDictionaries E v s) = Some e \<longrightarrow>
            (\<exists>word d. e = DictionaryError ErrMangledDictionary word d
               \<and> word \<in> set (words ?v) \<and> near (MinDist (options v)) ?pw word
               \<and> d \<le> MinDist (options v)
               \<and> (d = WagnerFischer word ?pw 1 1 1 \<or> d = WagnerFischer word (reverse ?pw) 1 1 1))"
    proof (intro allI impI)
      fix e assume "fst (foundInDictionaries E v s) = Some e"
      then have e: "fuzzyScan E ?v (MinDist (options v)) ?pw = Some e" using f by simp
      from fuzzyScan_Some[OF e]
      show "\<exists>word d. e = DictionaryError ErrMangledDictionary word d
               \<and> word \<in> set (words ?v) \<and> near (MinDist (options v)) ?pw word
               \<and> d \<le> MinDist (options v)
               \<and> (d = WagnerFischer word ?pw 1 1 1 \<or> d = WagnerFischer word (reverse ?pw) 1 1 1)"
        by (auto simp: near_def reverse_rev)
    qed
  qed
  have older: "snd (fst (foundInDictionaries0 E old s)) = Some ErrMangledDictionary
        \<longleftrightarrow> list_ex (near ?m0 ?pw) (words0 ?w)"
    and older2: "snd (fst (foundInDictionaries0 E old s)) \<noteq> None \<longrightarrow>
            fst (fst (foundInDictionaries0 E old s)) \<in> set (words0 ?w)
            \<and> near ?m0 ?pw (fst (fst (foundInDictionaries0 E old s)))"
    if a: "?pw \<notin> set (words0 ?w)" and b: "reverse ?pw \<notin> set (words0 ?w)"
  proof -
    have f: "fst (foundInDictionaries0 E old s) = scanWords0 ?m0 ?pw (rev ?pw) (range_keys E (words0 ?w))"
      using a b by (simp add: foundInDictionaries0_stages Let_def reverse_rev)
    show "snd (fst (foundInDictionaries0 E old s)) = Some ErrMangledDictionary
        \<longleftrightarrow> list_ex (near ?m0 ?pw) (words0 ?w)"
      using scanWords0_None[of ?m0 ?pw "range_keys E (words0 ?w)"]
        scanWords0_Some[of ?m0 ?pw "range_keys E (words0 ?w)"]
      by (cases "snd (scanWords0 ?m0 ?pw (rev ?pw) (range_keys E (words0 ?w)))")
         (auto simp: f list_ex_iff)
    show "snd (fst (foundInDictionaries0 E old s)) \<noteq> None \<longrightarrow>
            fst (fst (foundInDictionaries0 E old s)) \<in> set (words0 ?w)
            \<and> near ?m0 ?pw (fst (fst (foundInDictionaries0 E old s)))"
      using scanWords0_Some[of ?m0 ?pw "range_keys E (words0 ?w)"]
      by (auto simp: f)
  qed
  from new new2 older older2 show ?thesis by blast
qed

theorem fuzzy_threshold_witness:
  "firstError
      [if len (normalize_str latin1 [97, 98, 98, 97])
            \<le> wordsMaxLen (IndexDictionaries (oneDictionary [[120, 121, 122, 97, 98, 98, 97]])
                 (NewValidatorWithOpts (someOptions 4 2 3)))
       then exactLookup (IndexDictionaries (oneDictionary [[120, 121, 122, 97, 98, 98, 97]])
              (NewValidatorWithOpts (someOptions 4 2 3))) (normalize_str latin1 [97, 98, 98, 97])
       else None,
       hashedLookup (IndexDictionaries (oneDictionary [[120, 121, 122, 97, 98, 98, 97]])
         (NewValidatorWithOpts (someOptions 4 2 3))) (normalize_str latin1 [97, 98, 98, 97])] = None
   \<and> len (normalize_str latin1 [97, 98, 98, 97])
       \<le> wordsMaxLen (IndexDictionaries (oneDictionary [[120, 121, 122, 97, 98, 98, 97]])
            (NewValidatorWithOpts (someOptions 4 2 3))) + 3
   \<and> list_ex (near 3 (normalize_str latin1 [97, 98, 98, 97]))
        (words (IndexDictionaries (oneDictionary [[120, 121, 122, 97, 98, 98, 97]])
           (NewValidatorWithOpts (someOptions 4 2 3))))
   \<and> snd (fst (foundInDictionaries0 (oneDictionary [[120, 121, 122, 97, 98, 98, 97]])
        \<lparr>minDiff = 2, minDist = 3, minLength = 4, dictionaryPath = [47, 100], once0 = False,
         words0 = []\<rparr> [97, 98, 98, 97])) = None
   \<and> \<not> list_ex (near (min (len (normalize_str latin1 [97, 98, 98, 97]) div 2) 3)
            (normalize_str latin1 [97, 98, 98, 97]))
          (words0 (onceIndexed0 (oneDictionary [[120, 121, 122, 97, 98, 98, 97]])
             \<lparr>minDiff = 2, minDist = 3, minLength = 4, dictionaryPath = [47, 100], once0 = False,
              words0 = []\<rparr>))"
proof -
  let ?E = "oneDictionary [[120, 121, 122, 97, 98, 98, 97]]"
  let ?v = "NewValidatorWithOpts (someOptions 4 2 3)"
  let ?old = "\<lparr>minDiff = 2, minDist = 3, minLength = 4, dictionaryPath = [47, 100],
               once0 = False, words0 = []\<rparr>"
  let ?s = "[97, 98, 98, 97]"
  have u: "Unicode ?E = latin1" by (simp add: oneDictionary_def)
  have o: "MinDist (options ?v) = 3"
    by (simp add: NewValidatorWithOpts_def someOptions_def Let_def)
  have h1: "firstError
      [if len (normalize_str latin1 ?s) \<le> wordsMaxLen (IndexDictionaries ?E ?v)
       then exactLookup (IndexDictionaries ?E ?v) (normalize_str latin1 ?s) else None,
       hashedLookup (IndexDictionaries ?E ?v) (normalize_str latin1 ?s)] = None"
    by code_simp
  have h2: "len (normalize_str latin1 ?s) \<le> wordsMaxLen (IndexDictionaries ?E ?v) + 3"
    by code_simp
  have r: "fst (foundInDictionaries ?E ?v ?s)
       = Some (DictionaryError ErrMangledDictionary [120, 121, 122, 97, 98, 98, 97] 3)"
    by code_simp
  have h3: "normalize_str latin1 ?s \<notin> set (words0 (onceIndexed0 ?E ?old))" by code_simp
  have h4: "reverse (normalize_str latin1 ?s) \<notin> set (words0 (onceIndexed0 ?E ?old))"
    unfolding reverse_rev by code_simp
  have r0: "snd (fst (foundInDictionaries0 ?E ?old ?s)) = None" by code_simp
  note t = fuzzy_threshold[where E = ?E and v = ?v and s = ?s and old = ?old, unfolded u o]
  have n: "list_ex (near 3 (normalize_str latin1 ?s)) (words (IndexDictionaries ?E ?v))"
    using t h1 h2 r by blast
  have n0: "\<not> list_ex (near (min (len (normalize_str latin1 ?s) div 2) (minDist ?old))
            (normalize_str latin1 ?s)) (words0 (onceIndexed0 ?E ?old))"
    using t h3 h4 r0 by auto
  from h1 h2 n r0 n0 show ?thesis by simp
qed




end
